theory Spec2Isabelle
  imports Complex_Main
begin

section \<open>Arrays, values and errors\<close>

text \<open>
  The detector of \<^verbatim>\<open>src/yolo/engine/inference copy.py\<close> works on numpy arrays. A
  finite float32 or float64 value is modelled by the real number it denotes, and the
  entries of the tensor the session returns are taken to be finite. Where the code
  rounds, the model rounds: the confidence threshold is rounded to float32 for the
  comparison of line 78, and the division and multiplication of lines 86 and 87 round as
  numpy does. A value that is not finite (an infinity or a NaN, which only the division
  of line 86 can produce here) is \<open>None\<close>. An array of integers is a list of \<open>int\<close>.
  Exceptions are values of type \<open>error\<close>; a function that can raise returns
  \<open>error + 'a\<close>.

  A \<open>tensor\<close> is the array \<^verbatim>\<open>outputs\<close> that the session returns for a batch of one
  image, without its batch axis: one list for each field, and in each of them one entry
  for each anchor, all of one length as in an array. The first four fields are the box
  (centre x, centre y, width, height) and the others the class scores. The same type
  holds the transposed matrix, one row for each anchor.
\<close>

datatype error = ValueError | IndexError | AttributeError

type_synonym tensor = "real list list"

text \<open>A comprehension or loop over raising calls stops at the first exception.\<close>

fun sequence_sum :: "('e + 'a) list \<Rightarrow> 'e + 'a list" where
  "sequence_sum [] = Inr []"
| "sequence_sum (x # xs) =
     (case x of
        Inl e \<Rightarrow> Inl e
      | Inr v \<Rightarrow> (case sequence_sum xs of Inl e \<Rightarrow> Inl e | Inr vs \<Rightarrow> Inr (v # vs)))"

subsection \<open>Rounding to a binary floating-point format\<close>

text \<open>Rounding to the nearest integer, a tie to the even one.\<close>

definition round_half_even :: "real \<Rightarrow> int" where
  "round_half_even x =
     (let f = \<lfloor>x\<rfloor>; r = x - real_of_int f
      in if r < 1 / 2 then f else if 1 / 2 < r then f + 1 else if even f then f else f + 1)"

text \<open>
  The power of two that starts the binade of \<open>a\<close>: the search goes up from 1 for at most
  as many steps as the format has positive exponents, and down from 1 for at most as
  many steps as it has negative exponents of normal numbers, so that every smaller
  value is spaced like the smallest normal ones.
\<close>

fun binade_up :: "nat \<Rightarrow> real \<Rightarrow> real \<Rightarrow> real" where
  "binade_up 0 b a = b"
| "binade_up (Suc n) b a = (if a < 2 * b then b else binade_up n (2 * b) a)"

fun binade_down :: "nat \<Rightarrow> real \<Rightarrow> real \<Rightarrow> real" where
  "binade_down 0 b a = b"
| "binade_down (Suc n) b a = (if b \<le> a then b else binade_down n (b / 2) a)"

text \<open>
  Rounding to the nearest value of a format with \<open>p\<close> significant bits and exponents
  from \<open>- emin\<close> to \<open>emax\<close>, a tie to the even significand. A value beyond the largest
  of the format is rounded in the last binade and stands for the infinity of its sign.
\<close>

definition round_float :: "nat \<Rightarrow> nat \<Rightarrow> nat \<Rightarrow> real \<Rightarrow> real" where
  "round_float p emin emax x =
     (let a = \<bar>x\<bar>;
          b = (if 1 \<le> a then binade_up emax 1 a else binade_down emin 1 a);
          ulp = b / 2 ^ (p - 1)
      in sgn x * real_of_int (round_half_even (a / ulp)) * ulp)"

definition float32 :: "real \<Rightarrow> real" where
  "float32 = round_float 24 126 127"

definition float64 :: "real \<Rightarrow> real" where
  "float64 = round_float 53 1022 1023"

subsection \<open>The numpy operations of \<^verbatim>\<open>postprocess\<close>\<close>

text \<open>
  \<^verbatim>\<open>np.max\<close> and \<^verbatim>\<open>np.argmax\<close> along a row that is not empty: the maximum, and the
  first position at which it stands.
\<close>

definition np_max :: "real list \<Rightarrow> real" where
  "np_max xs = foldl max (hd xs) (tl xs)"

fun first_index :: "'a \<Rightarrow> 'a list \<Rightarrow> nat" where
  "first_index v [] = 0"
| "first_index v (x # xs) = (if x = v then 0 else Suc (first_index v xs))"

definition np_argmax :: "real list \<Rightarrow> nat" where
  "np_argmax xs = first_index (np_max xs) xs"

text \<open>
  \<^verbatim>\<open>np.max(a, axis=1)\<close> for a matrix \<open>a\<close> of \<open>ncol\<close> columns: a reduction over an axis
  of length zero has no identity and raises, whatever the number of rows.
\<close>

definition max_axis1 :: "nat \<Rightarrow> real list list \<Rightarrow> error + real list" where
  "max_axis1 ncol a = (if ncol = 0 then Inl ValueError else Inr (map np_max a))"

text \<open>\<^verbatim>\<open>a[mask]\<close>: the entries of \<open>a\<close> at which the boolean mask holds, in order.\<close>

definition boolean_index :: "'a list \<Rightarrow> bool list \<Rightarrow> 'a list" where
  "boolean_index xs msk = map fst (filter snd (zip xs msk))"

text \<open>
  \<^verbatim>\<open>np.divide(boxes, input_shape, dtype=np.float32)\<close> for one entry: the integer is
  cast to float32 and the quotient is rounded to float32. A division by zero gives an
  infinity or a NaN.
\<close>

definition divide_f32 :: "real \<Rightarrow> int \<Rightarrow> real option" where
  "divide_f32 v d =
     (if d = 0 then None else Some (float32 (v / float32 (real_of_int d))))"

text \<open>
  \<^verbatim>\<open>boxes *= np.array([...])\<close> for one entry: a float32 array times an int64 array is
  computed in float64 and stored back as float32. What is not finite stays so.
\<close>

definition multiply_f32 :: "real option \<Rightarrow> int \<Rightarrow> real option" where
  "multiply_f32 q m =
     (case q of
        None \<Rightarrow> None
      | Some v \<Rightarrow> Some (float32 (float64 (v * float64 (real_of_int m)))))"

text \<open>
  \<^verbatim>\<open>astype(np.int32)\<close> on a float32: truncation toward zero. A value that is not
  finite or whose truncation is not a 32-bit integer gives the least 32-bit integer, as
  the conversion instruction of x86-64 does.
\<close>

definition astype_int32 :: "real option \<Rightarrow> int" where
  "astype_int32 v =
     (case v of
        None \<Rightarrow> - 2147483648
      | Some x \<Rightarrow>
          (let t = (if 0 \<le> x then \<lfloor>x\<rfloor> else \<lceil>x\<rceil>)
           in if - 2147483648 \<le> t \<and> t \<le> 2147483647 then t else - 2147483648))"

section \<open>The detector object\<close>

text \<open>
  An image is known to the detector by \<^verbatim>\<open>img.shape[:2]\<close> (height, width) and its pixel
  buffer. The record \<open>YOLOv9\<close> holds the fields of \<^verbatim>\<open>self\<close> that \<^verbatim>\<open>detect\<close>,
  \<^verbatim>\<open>preprocess\<close> and \<^verbatim>\<open>postprocess\<close> read or write: the three thresholds (lines
  19 to 21), the current image and its size (lines 104 and 66), the model's input size
  (line 44), the size given as \<^verbatim>\<open>original_size\<close> at construction (line 38), the class
  names (line 52) and the inference session (line 42), which maps an input tensor to the
  tensor \<^verbatim>\<open>outputs\<close> of line 106.
\<close>

record 'p image =
  shape0 :: nat
  shape1 :: nat
  pixels :: 'p

record ('p, 't) YOLOv9 =
  conf_threshold :: real
  iou_threshold :: real
  score_threshold :: real
  img :: "'p image option"
  img_height :: "nat option"
  img_width :: "nat option"
  input_height :: int
  input_width :: int
  image_width :: int
  image_height :: int
  classes :: "string list"
  session :: "'t \<Rightarrow> tensor"

record detection =
  class_index :: nat
  confidence :: real
  box :: "real list"
  class_name :: string

section \<open>Decoding and rescaling (lines 76 to 88)\<close>

text \<open>The number of anchors of a tensor: the length of its fields.\<close>

definition anchors :: "tensor \<Rightarrow> nat" where
  "anchors outputs = (case outputs of [] \<Rightarrow> 0 | field # _ \<Rightarrow> length field)"

text \<open>
  Line 76, \<^verbatim>\<open>np.squeeze(outputs).T\<close>. The squeeze removes the batch axis and every
  other axis of length one. With more than one field and more than one anchor (or none)
  the result is the matrix of the fields, and its transpose has one row for each anchor.
  With exactly one field or exactly one anchor the result has fewer than two axes, and
  the slice \<^verbatim>\<open>predictions[:, 4:]\<close> of line 77 raises \<^verbatim>\<open>IndexError\<close>. A tensor
  without any field is taken with its anchors unknown and counted as having none.
\<close>

definition squeeze_T :: "tensor \<Rightarrow> error + tensor" where
  "squeeze_T outputs =
     (if length outputs = 1 \<or> anchors outputs = 1 then Inl IndexError
      else Inr (map (\<lambda>a. map (\<lambda>field. field ! a) outputs) [0..<anchors outputs]))"

text \<open>
  Lines 76 to 80: the score of an anchor is the maximum of its class fields, the columns
  from position 4 on; the rows and scores above \<^verbatim>\<open>conf_threshold\<close> are selected with
  one boolean mask, the comparison being made in float32; the class of a selected row is
  the argmax of its class fields.
\<close>

definition decode ::
  "('p, 't) YOLOv9 \<Rightarrow> tensor \<Rightarrow> error + (tensor \<times> real list \<times> nat list)" where
  "decode self outputs =
     (case squeeze_T outputs of
        Inl e \<Rightarrow> Inl e
      | Inr predictions \<Rightarrow>
          (case max_axis1 (length outputs - 4) (map (drop 4) predictions) of
             Inl e \<Rightarrow> Inl e
           | Inr scores \<Rightarrow>
               (let msk = map (\<lambda>s. float32 (conf_threshold self) < s) scores;
                    predictions' = boolean_index predictions msk;
                    scores' = boolean_index scores msk;
                    class_ids = map (\<lambda>row. np_argmax (drop 4 row)) predictions'
                in Inr (predictions', scores', class_ids))))"

text \<open>
  Lines 83 to 88, for one row: the four box fields are divided by the model's input
  width and height, multiplied by \<^verbatim>\<open>image_width\<close> and \<^verbatim>\<open>image_height\<close>, and cast to
  32-bit integers. The box stays in centre and size form.
\<close>

definition rescale :: "('p, 't) YOLOv9 \<Rightarrow> real list \<Rightarrow> int list" where
  "rescale self row =
     (let input_shape = [input_width self, input_height self, input_width self, input_height self];
          image_shape = [image_width self, image_height self, image_width self, image_height self];
          boxes = map2 divide_f32 (take 4 row) input_shape;
          boxes = map2 multiply_f32 boxes image_shape
      in map astype_int32 boxes)"

section \<open>Suppression (line 89)\<close>

text \<open>
  Line 89 calls \<^verbatim>\<open>cv2.dnn.NMSBoxes\<close>, which is OpenCV's and not code under
  \<^verbatim>\<open>src/\<close>. The algorithm is taken from the specification of the suppressor; the
  reading of a row of \<open>boxes\<close> as a rectangle (x, y, width, height) and the value
  handed back to Python are the library's.
\<close>

text \<open>
  Modelled from the spec: the overlap measure of \<^verbatim>\<open>cv2.dnn.NMSBoxes\<close>, which is not
  under \<^verbatim>\<open>src/\<close>. The overlap of two boxes is the area of their intersection divided
  by the area of their union, and a box of no area overlaps nothing.
\<close>

definition rect_overlap :: "int list \<Rightarrow> int list \<Rightarrow> real" where
  "rect_overlap a b =
     (let area_a = (a ! 2) * (a ! 3);
          area_b = (b ! 2) * (b ! 3);
          w = min (a ! 0 + a ! 2) (b ! 0 + b ! 2) - max (a ! 0) (b ! 0);
          h = min (a ! 1 + a ! 3) (b ! 1 + b ! 3) - max (a ! 1) (b ! 1);
          inter = (if w \<le> 0 \<or> h \<le> 0 then 0 else w * h)
      in if area_a \<le> 0 \<or> area_b \<le> 0 then 0
         else real_of_int inter / real_of_int (area_a + area_b - inter))"

text \<open>
  Modelled from the spec: the greedy loop of \<^verbatim>\<open>suppress\<close>. The first index of the
  traversal is kept, every later index whose box overlaps the kept box by more than the
  threshold is discarded, and the loop goes on with what is left.
\<close>

fun greedy :: "('b \<Rightarrow> 'b \<Rightarrow> real) \<Rightarrow> 'b list \<Rightarrow> real \<Rightarrow> nat list \<Rightarrow> nat list" where
  "greedy ov boxes thr [] = []"
| "greedy ov boxes thr (i # rest) =
     i # greedy ov boxes thr (filter (\<lambda>j. \<not> thr < ov (boxes ! i) (boxes ! j)) rest)"

text \<open>
  Modelled from the spec: \<^verbatim>\<open>suppress\<close>, the contract of the suppressor. Candidates
  below the score threshold are left out, the others are traversed by descending score,
  equal scores in the order of their indices (a stable sort), and the greedy loop picks
  the survivors. The result lists the indices that are kept.
\<close>

definition suppress ::
  "('b \<Rightarrow> 'b \<Rightarrow> real) \<Rightarrow> 'b list \<Rightarrow> real list \<Rightarrow> real \<Rightarrow> real \<Rightarrow> nat list" where
  "suppress ov boxes scores scoreThreshold iouThreshold =
     greedy ov boxes iouThreshold
       (sort_key (\<lambda>i. - (scores ! i))
          (filter (\<lambda>i. \<not> scores ! i < scoreThreshold) [0..<length scores]))"

text \<open>
  What the Python call returns: cv2 hands an empty index vector back as the empty tuple
  \<^verbatim>\<open>()\<close>, and any other as an integer array.
\<close>

datatype indices = EmptyTuple | IndexArray "nat list"

definition NMSBoxes :: "int list list \<Rightarrow> real list \<Rightarrow> real \<Rightarrow> real \<Rightarrow> indices" where
  "NMSBoxes boxes scores score_thr nms_thr =
     (let kept = suppress rect_overlap boxes scores score_thr nms_thr
      in if kept = [] then EmptyTuple else IndexArray kept)"

text \<open>
  \<^verbatim>\<open>a[indices]\<close>: an integer array selects the rows it lists; the empty tuple is the
  index of no axis at all and selects the whole array.
\<close>

fun getitem :: "'a list \<Rightarrow> indices \<Rightarrow> 'a list" where
  "getitem a EmptyTuple = a"
| "getitem a (IndexArray ix) = map (\<lambda>i. a ! i) ix"

section \<open>Assembly (lines 90 to 101)\<close>

text \<open>
  Modelled from the spec: \<^verbatim>\<open>xywh2xyxy\<close> of \<^verbatim>\<open>yolo.utils\<close>, which is not under
  \<^verbatim>\<open>src/\<close>: x1 = cx - w/2, y1 = cy - h/2, x2 = cx + w/2, y2 = cy + h/2.
\<close>

definition xywh2xyxy :: "int list \<Rightarrow> real list" where
  "xywh2xyxy b =
     [real_of_int (b ! 0) - real_of_int (b ! 2) / 2,
      real_of_int (b ! 1) - real_of_int (b ! 3) / 2,
      real_of_int (b ! 0) + real_of_int (b ! 2) / 2,
      real_of_int (b ! 1) + real_of_int (b ! 3) / 2]"

text \<open>Line 101: indexing the class names beyond their end raises.\<close>

definition get_label_name :: "('p, 't) YOLOv9 \<Rightarrow> nat \<Rightarrow> error + string" where
  "get_label_name self class_id =
     (if class_id < length (classes self) then Inr (classes self ! class_id)
      else Inl IndexError)"

text \<open>Lines 92 to 97: one detection; the lookup of the name may raise.\<close>

definition make_detection ::
  "('p, 't) YOLOv9 \<Rightarrow> real list \<times> real \<times> nat \<Rightarrow> error + detection" where
  "make_detection self t =
     (case t of (bbox, score, label) \<Rightarrow>
        (case get_label_name self label of
           Inl e \<Rightarrow> Inl e
         | Inr name \<Rightarrow>
             Inr \<lparr>class_index = label, confidence = score, box = bbox, class_name = name\<rparr>))"

text \<open>Lines 83 to 88 for all selected rows: the first argument of the call of line 89.\<close>

definition nms_boxes :: "('p, 't) YOLOv9 \<Rightarrow> tensor \<Rightarrow> int list list" where
  "nms_boxes self predictions = map (rescale self) predictions"

text \<open>Line 91: the triples the loop runs over.\<close>

definition selected ::
  "int list list \<Rightarrow> real list \<Rightarrow> nat list \<Rightarrow> indices \<Rightarrow> (real list \<times> real \<times> nat) list" where
  "selected boxes scores class_ids ix =
     zip (map xywh2xyxy (getitem boxes ix)) (zip (getitem scores ix) (getitem class_ids ix))"

text \<open>
  Lines 75 to 98: decoding, rescaling, the call of the suppressor, and the loop that
  builds the detections from what the suppressor's result selects.
\<close>

definition postprocess :: "('p, 't) YOLOv9 \<Rightarrow> tensor \<Rightarrow> error + detection list" where
  "postprocess self outputs =
     (case decode self outputs of
        Inl e \<Rightarrow> Inl e
      | Inr (predictions, scores, class_ids) \<Rightarrow>
          (let boxes = nms_boxes self predictions;
               ix = NMSBoxes boxes scores (score_threshold self) (iou_threshold self)
           in sequence_sum (map (make_detection self) (selected boxes scores class_ids ix))))"

section \<open>The entry point (lines 56 to 72 and 103 to 107)\<close>

text \<open>
  \<^verbatim>\<open>preprocess\<close> records the size of the current image in the detector and builds the
  input tensor with cv2 and numpy (colour conversion, resize to the model's input size,
  scaling, transposition); that pixel work is the parameter \<open>cv\<close>. The detector is
  returned as the call leaves it.
\<close>

definition preprocess ::
  "(int \<Rightarrow> int \<Rightarrow> 'p \<Rightarrow> 't) \<Rightarrow> ('p, 't) YOLOv9 \<Rightarrow> (error + 't) \<times> ('p, 't) YOLOv9" where
  "preprocess cv self =
     (case img self of
        None \<Rightarrow> (Inl AttributeError, self)
      | Some im \<Rightarrow>
          (let self' = self\<lparr>img_height := Some (shape0 im), img_width := Some (shape1 im)\<rparr>
           in (Inr (cv (input_width self') (input_height self') (pixels im)), self')))"

definition detect ::
  "(int \<Rightarrow> int \<Rightarrow> 'p \<Rightarrow> 't) \<Rightarrow> ('p, 't) YOLOv9 \<Rightarrow> 'p image
     \<Rightarrow> (error + detection list) \<times> ('p, 't) YOLOv9" where
  "detect cv self im =
     (let self1 = self\<lparr>img := Some im\<rparr>
      in case preprocess cv self1 of
           (Inl e, self2) \<Rightarrow> (Inl e, self2)
         | (Inr input_tensor, self2) \<Rightarrow> (postprocess self2 (session self2 input_tensor), self2))"

section \<open>Notions used in the statements\<close>

text \<open>
  The score line 77 gives an anchor whose row has at least one class field: the maximum
  of the fields from position 4 on.
\<close>

definition anchor_score :: "real list \<Rightarrow> real" where
  "anchor_score row = foldl max (row ! 4) (drop 5 row)"

text \<open>
  An example tensor of two anchors, six fields each, and the matrix line 76 makes of it.
  The example detector has the default thresholds of the constructor (lines 14 to 17),
  a model input of 640 by 640, \<^verbatim>\<open>original_size = (1280, 720)\<close> and two class names; its
  session returns the example tensor.
\<close>

definition example_outputs :: tensor where
  "example_outputs =
     [[320, 100], [320, 100], [64, 32], [64, 32], [1 / 10, 9 / 10], [9 / 10, 1 / 5]]"

definition example_predictions :: tensor where
  "example_predictions =
     [[320, 320, 64, 64, 1 / 10, 9 / 10],
      [100, 100, 32, 32, 9 / 10, 1 / 5]]"

definition example_detector :: "(unit, unit) YOLOv9" where
  "example_detector =
     \<lparr>conf_threshold = 2 / 5, iou_threshold = 2 / 5, score_threshold = 1 / 10,
      img = None, img_height = None, img_width = None,
      input_height = 640, input_width = 640, image_width = 1280, image_height = 720,
      classes = [''person'', ''car''], session = (\<lambda>_. example_outputs)\<rparr>"

text \<open>Three boxes for the suppressor: the second overlaps the first, the third is apart.\<close>

definition example_boxes :: "int list list" where
  "example_boxes = [[0, 0, 10, 10], [1, 1, 10, 10], [100, 100, 10, 10]]"

definition example_scores :: "real list" where
  "example_scores = [9 / 10, 4 / 5, 7 / 10]"

text \<open>
  Further tensors of two anchors each with the boxes of the example: one anchor above the
  confidence threshold and one below; both below; a single class field, with the matrix
  line 76 makes of it; no class field; a first anchor whose score is the float32 nearest
  to 0.4.
\<close>

definition mixed_outputs :: tensor where
  "mixed_outputs =
     [[320, 100], [320, 100], [64, 32], [64, 32], [1 / 10, 3 / 10], [9 / 10, 1 / 5]]"

definition quiet_outputs :: tensor where
  "quiet_outputs =
     [[320, 100], [320, 100], [64, 32], [64, 32], [1 / 10, 3 / 10], [1 / 5, 1 / 5]]"




definition edge_outputs :: tensor where
  "edge_outputs =
     [[320, 100], [320, 100], [64, 32], [64, 32], [1 / 10, 9 / 10],
      [13421773 / 33554432, 1 / 5]]"

text \<open>A tensor of a single anchor, whose score 0.2 is below the confidence threshold.\<close>

definition single_anchor_outputs :: tensor where
  "single_anchor_outputs = [[320], [320], [64], [64], [1 / 10], [1 / 5]]"

text \<open>
  The order of the detection list as the specification words it: descending confidence,
  and among equal confidences ascending class index.
\<close>

definition spec_order :: "detection list \<Rightarrow> bool" where
  "spec_order ds =
     sorted_wrt (\<lambda>a b. confidence b < confidence a
        \<or> (confidence a = confidence b \<and> class_index a \<le> class_index b)) ds"

text \<open>
  The boxes the suppressor receives as the specification words it: the rescaled boxes
  already converted to corners.
\<close>

definition spec_suppress_input :: "('p, 't) YOLOv9 \<Rightarrow> tensor \<Rightarrow> real list list" where
  "spec_suppress_input self rows = map (\<lambda>row. xywh2xyxy (rescale self row)) rows"

text \<open>
  Further examples. A detector constructed with \<^verbatim>\<open>score_thres = 0.9\<close> and a tensor
  whose two anchors score 0.5, with the matrix line 76 makes of it; a tensor with three
  class fields; a tensor whose second anchor scores higher than the first, with its
  matrix; an image of 480 rows and 640 columns.
\<close>

definition strict_detector :: "(unit, unit) YOLOv9" where
  "strict_detector = example_detector\<lparr>score_threshold := 9 / 10\<rparr>"

definition weak_outputs :: tensor where
  "weak_outputs =
     [[320, 100], [320, 100], [64, 32], [64, 32], [1 / 10, 1 / 2], [1 / 2, 1 / 5]]"

definition weak_predictions :: tensor where
  "weak_predictions =
     [[320, 320, 64, 64, 1 / 10, 1 / 2],
      [100, 100, 32, 32, 1 / 2, 1 / 5]]"

definition three_class_outputs :: tensor where
  "three_class_outputs =
     [[320, 100], [320, 100], [64, 32], [64, 32], [1 / 10, 3 / 10], [1 / 5, 1 / 5],
      [9 / 10, 0]]"

definition rising_outputs :: tensor where
  "rising_outputs =
     [[320, 100], [320, 100], [64, 32], [64, 32], [1 / 10, 9 / 10], [1 / 2, 1 / 5]]"

definition rising_predictions :: tensor where
  "rising_predictions =
     [[320, 320, 64, 64, 1 / 10, 1 / 2],
      [100, 100, 32, 32, 9 / 10, 1 / 5]]"

definition example_image :: "unit image" where
  "example_image = \<lparr>shape0 = 480, shape1 = 640, pixels = ()\<rparr>"

section \<open>Properties of the suppressor\<close>

lemma greedy_subset: "set (greedy ov boxes thr xs) \<subseteq> set xs"
  by (induction ov boxes thr xs rule: greedy.induct) auto

lemma greedy_Nil_iff: "greedy ov boxes thr xs = [] \<longleftrightarrow> xs = []"
  by (cases xs) simp_all

lemma greedy_sorted_wrt:
  "sorted_wrt R xs \<Longrightarrow> sorted_wrt R (greedy ov boxes thr xs)"
proof (induction ov boxes thr xs rule: greedy.induct)
  case (1 ov boxes thr)
  then show ?case by simp
next
  case (2 ov boxes thr i rest)
  let ?rest = "filter (\<lambda>j. \<not> thr < ov (boxes ! i) (boxes ! j)) rest"
  from "2.prems" have hd: "\<forall>x \<in> set rest. R i x" and tl: "sorted_wrt R rest"
    by simp_all
  have "sorted_wrt R ?rest"
    using tl by (rule sorted_wrt_filter)
  then have "sorted_wrt R (greedy ov boxes thr ?rest)"
    by (rule "2.IH")
  moreover have "\<forall>x \<in> set (greedy ov boxes thr ?rest). R i x"
    using hd greedy_subset [of ov boxes thr ?rest] by auto
  ultimately show ?case by simp
qed

lemma greedy_pairwise:
  "sorted_wrt (\<lambda>i j. \<not> thr < ov (boxes ! i) (boxes ! j)) (greedy ov boxes thr xs)"
proof (induction ov boxes thr xs rule: greedy.induct)
  case (1 ov boxes thr)
  show ?case by (simp only: greedy.simps sorted_wrt.simps)
next
  case (2 ov boxes thr i rest)
  define rest' where "rest' = filter (\<lambda>j. \<not> thr < ov (boxes ! i) (boxes ! j)) rest"
  have sub: "set (greedy ov boxes thr rest') \<subseteq> set rest'"
    by (rule greedy_subset)
  have hd: "\<forall>x \<in> set (greedy ov boxes thr rest'). \<not> thr < ov (boxes ! i) (boxes ! x)"
  proof
    fix x assume "x \<in> set (greedy ov boxes thr rest')"
    with sub have "x \<in> set rest'" by blast
    then show "\<not> thr < ov (boxes ! i) (boxes ! x)"
      unfolding rest'_def by simp
  qed
  have tl: "sorted_wrt (\<lambda>i j. \<not> thr < ov (boxes ! i) (boxes ! j)) (greedy ov boxes thr rest')"
    unfolding rest'_def by (rule "2.IH")
  have "sorted_wrt (\<lambda>i j. \<not> thr < ov (boxes ! i) (boxes ! j)) (i # greedy ov boxes thr rest')"
    using hd tl by (simp only: sorted_wrt.simps simp_thms)
  then show ?case
    unfolding rest'_def by (simp only: greedy.simps)
qed

lemma greedy_fixed:
  "sorted_wrt (\<lambda>i j. \<not> thr < ov (boxes ! i) (boxes ! j)) xs \<Longrightarrow> greedy ov boxes thr xs = xs"
proof (induction ov boxes thr xs rule: greedy.induct)
  case (1 ov boxes thr)
  show ?case by (simp only: greedy.simps)
next
  case (2 ov boxes thr i rest)
  from "2.prems" have all: "\<forall>x \<in> set rest. \<not> thr < ov (boxes ! i) (boxes ! x)"
    and tl: "sorted_wrt (\<lambda>i j. \<not> thr < ov (boxes ! i) (boxes ! j)) rest"
    by simp_all
  from all have same: "filter (\<lambda>j. \<not> thr < ov (boxes ! i) (boxes ! j)) rest = rest"
    by (rule filter_True)
  have "greedy ov boxes thr rest = rest"
    using "2.IH" tl unfolding same .
  then show ?case
    by (simp only: greedy.simps same)
qed

lemma sorted_wrt_reindex:
  assumes "sorted_wrt (\<lambda>i j. P (g i) (g j)) K"
  shows "sorted_wrt (\<lambda>a b. P (map g K ! a) (map g K ! b)) [0..<length K]"
proof -
  have "P (map g K ! ([0..<length K] ! a)) (map g K ! ([0..<length K] ! b))"
    if "a < b" and "b < length [0..<length K]" for a b
  proof -
    from that have b: "b < length K" and a: "a < length K"
      by simp_all
    from assms that(1) b have "P (g (K ! a)) (g (K ! b))"
      by (simp only: sorted_wrt_iff_nth_less)
    with a b show ?thesis
      by simp
  qed
  then show ?thesis
    by (simp only: sorted_wrt_iff_nth_less) blast
qed

lemma insort_key_tie:
  fixes f :: "nat \<Rightarrow> real"
  assumes "sorted_wrt (\<lambda>i j. f i < f j \<or> (f i = f j \<and> i < j)) ys"
    and "\<forall>y \<in> set ys. x < y"
  shows "sorted_wrt (\<lambda>i j. f i < f j \<or> (f i = f j \<and> i < j)) (insort_key f x ys)"
  using assms
proof (induction ys)
  case Nil
  then show ?case by simp
next
  case (Cons y ys)
  show ?case
  proof (cases "f x \<le> f y")
    case True
    have "\<forall>z \<in> set ys. f y \<le> f z"
      using Cons.prems(1) by auto
    then have "\<forall>z \<in> set (y # ys). f x \<le> f z"
      using True by auto
    then have "\<forall>z \<in> set (y # ys). f x < f z \<or> (f x = f z \<and> x < z)"
      using Cons.prems(2) by fastforce
    then show ?thesis
      using True Cons.prems(1) by simp
  next
    case False
    have "sorted_wrt (\<lambda>i j. f i < f j \<or> (f i = f j \<and> i < j)) (insort_key f x ys)"
      using Cons.IH Cons.prems by simp
    moreover have "\<forall>z \<in> set (insort_key f x ys). f y < f z \<or> (f y = f z \<and> y < z)"
      using False Cons.prems(1) by (auto simp: set_insort_key)
    ultimately show ?thesis
      using False by simp
  qed
qed

lemma sort_key_tie:
  fixes f :: "nat \<Rightarrow> real"
  assumes "sorted_wrt (<) xs"
  shows "sorted_wrt (\<lambda>i j. f i < f j \<or> (f i = f j \<and> i < j)) (sort_key f xs)"
  using assms
proof (induction xs)
  case Nil
  then show ?case by simp
next
  case (Cons x xs)
  then show ?case by (simp add: insort_key_tie)
qed

lemma suppress_order:
  "sorted_wrt (\<lambda>i j. scores ! j < scores ! i \<or> (scores ! i = scores ! j \<and> i < j))
     (suppress ov boxes scores st nt)"
proof -
  let ?xs = "filter (\<lambda>i. \<not> scores ! i < st) [0..<length scores]"
  have "sorted_wrt (<) ?xs"
    by (rule sorted_wrt_filter) simp
  then have "sorted_wrt (\<lambda>i j. - (scores ! i) < - (scores ! j)
        \<or> (- (scores ! i) = - (scores ! j) \<and> i < j)) (sort_key (\<lambda>i. - (scores ! i)) ?xs)"
    by (rule sort_key_tie)
  then have "sorted_wrt (\<lambda>i j. scores ! j < scores ! i \<or> (scores ! i = scores ! j \<and> i < j))
      (sort_key (\<lambda>i. - (scores ! i)) ?xs)"
    by simp
  then show ?thesis
    unfolding suppress_def by (rule greedy_sorted_wrt)
qed

lemma suppress_subset:
  "set (suppress ov boxes scores st nt) \<subseteq> {i. i < length scores \<and> \<not> scores ! i < st}"
proof -
  let ?xs = "filter (\<lambda>i. \<not> scores ! i < st) [0..<length scores]"
  have "set (suppress ov boxes scores st nt) \<subseteq> set (sort_key (\<lambda>i. - (scores ! i)) ?xs)"
    unfolding suppress_def by (rule greedy_subset)
  also have "\<dots> = set ?xs"
    by (rule set_sort)
  also have "\<dots> = {i. i < length scores \<and> \<not> scores ! i < st}"
    by (simp only: set_filter set_upt atLeastLessThan_iff) blast
  finally show ?thesis .
qed

lemma filter_upt_all:
  assumes "\<forall>a < n. P a"
  shows "filter P [0..<n] = [0..<n]"
proof (rule filter_True)
  show "\<forall>x \<in> set [0..<n]. P x"
    using assms by simp
qed

text \<open>
  Claim C8. Suppression is idempotent: take any boxes and scores and any two thresholds,
  keep the boxes and scores at the surviving indices (in the order the suppressor
  returned them), and suppress again with the same thresholds. Every one of them
  survives: the second run returns all the positions of its input, in order.
\<close>

theorem suppress_idempotent:
  "suppress ov (map (\<lambda>i. boxes ! i) (suppress ov boxes scores st nt))
      (map (\<lambda>i. scores ! i) (suppress ov boxes scores st nt)) st nt
     = [0..<length (suppress ov boxes scores st nt)]"
proof -
  define kept where "kept = suppress ov boxes scores st nt"
  define b where "b = map (\<lambda>i. boxes ! i) kept"
  define s where "s = map (\<lambda>i. scores ! i) kept"
  have len: "length s = length kept"
    by (simp add: s_def)
  have above: "\<forall>a < length kept. \<not> s ! a < st"
  proof (intro allI impI)
    fix a assume a: "a < length kept"
    then have "kept ! a \<in> set kept"
      by (rule nth_mem)
    then have "\<not> scores ! (kept ! a) < st"
      using suppress_subset [of ov boxes scores st nt] unfolding kept_def by blast
    then show "\<not> s ! a < st"
      using a by (simp add: s_def)
  qed
  have flt: "filter (\<lambda>a. \<not> s ! a < st) [0..<length s] = [0..<length kept]"
    unfolding len using above by (rule filter_upt_all)
  have ord: "sorted_wrt (\<lambda>i j. scores ! j < scores ! i \<or> (scores ! i = scores ! j \<and> i < j)) kept"
    unfolding kept_def by (rule suppress_order)
  have "sorted_wrt (\<lambda>i j. - (scores ! i) \<le> - (scores ! j)) kept"
  proof (rule sorted_wrt_mono_rel [OF _ ord])
    fix i j
    assume "scores ! j < scores ! i \<or> (scores ! i = scores ! j \<and> i < j)"
    then show "- (scores ! i) \<le> - (scores ! j)"
      by linarith
  qed
  then have "sorted_wrt (\<lambda>a c. - (s ! a) \<le> - (s ! c)) [0..<length kept]"
    unfolding s_def by (rule sorted_wrt_reindex [where P = "\<lambda>x y. - x \<le> - y"])
  then have "sorted (map (\<lambda>a. - (s ! a)) [0..<length kept])"
    by (simp only: sorted_map)
  then have srt: "sort_key (\<lambda>a. - (s ! a)) [0..<length kept] = [0..<length kept]"
    by (rule sort_key_id_if_sorted)
  have "sorted_wrt (\<lambda>i j. \<not> nt < ov (boxes ! i) (boxes ! j)) kept"
    unfolding kept_def suppress_def by (rule greedy_pairwise)
  then have "sorted_wrt (\<lambda>a c. \<not> nt < ov (b ! a) (b ! c)) [0..<length kept]"
    unfolding b_def by (rule sorted_wrt_reindex [where P = "\<lambda>x y. \<not> nt < ov x y"])
  then have "greedy ov b nt [0..<length kept] = [0..<length kept]"
    by (rule greedy_fixed)
  then have "suppress ov b s st nt = [0..<length kept]"
    unfolding suppress_def [of ov b s] flt srt .
  then show ?thesis
    unfolding kept_def b_def s_def .
qed

text \<open>
  Claim C8 on the example: of three boxes the second is suppressed by the first, and
  suppressing the two survivors again keeps both.
\<close>

theorem suppress_idempotent_witness:
  "suppress rect_overlap example_boxes example_scores (1 / 10) (2 / 5) = [0, 2]
   \<and> suppress rect_overlap
        (map (\<lambda>i. example_boxes ! i) (suppress rect_overlap example_boxes example_scores (1 / 10) (2 / 5)))
        (map (\<lambda>i. example_scores ! i) (suppress rect_overlap example_boxes example_scores (1 / 10) (2 / 5)))
        (1 / 10) (2 / 5) = [0, 1]"
proof -
  have kept: "suppress rect_overlap example_boxes example_scores (1 / 10) (2 / 5) = [0, 2]"
    by (simp add: suppress_def rect_overlap_def example_boxes_def example_scores_def)
  show ?thesis
    using suppress_idempotent [of rect_overlap example_boxes example_scores "1 / 10" "2 / 5"]
    by (simp add: kept)
qed

section \<open>Properties of the decoding\<close>

lemma boolean_index_map: "boolean_index (map f xs) (map g xs) = map f (filter g xs)"
  unfolding boolean_index_def by (induction xs) auto

lemma boolean_index_filter: "boolean_index xs (map g xs) = filter g xs"
  using boolean_index_map [of "\<lambda>x. x" xs g] by simp

lemma squeeze_T_Inr:
  assumes "length outputs \<noteq> 1" and "anchors outputs \<noteq> 1"
  shows "squeeze_T outputs
     = Inr (map (\<lambda>a. map (\<lambda>field. field ! a) outputs) [0..<anchors outputs])"
  using assms by (simp add: squeeze_T_def)

lemma squeeze_T_Inl:
  assumes "length outputs = 1 \<or> anchors outputs = 1"
  shows "squeeze_T outputs = Inl IndexError"
  using assms by (simp add: squeeze_T_def)

lemma squeeze_T_shape:
  assumes "squeeze_T outputs = Inr predictions"
  shows "length outputs \<noteq> 1 \<and> anchors outputs \<noteq> 1
     \<and> (\<forall>row \<in> set predictions. length row = length outputs)"
  using assms by (auto simp: squeeze_T_def split: if_splits)

lemma np_max_drop: "4 < length row \<Longrightarrow> np_max (drop 4 row) = anchor_score row"
proof -
  assume "4 < length row"
  then have "drop 4 row = row ! 4 # drop 5 row"
    using Cons_nth_drop_Suc [of 4 row] by simp
  then show ?thesis by (simp add: anchor_score_def np_max_def)
qed

lemma scores_of_rows:
  assumes "\<forall>row \<in> set p. 4 < length row"
  shows "map np_max (map (drop 4) p) = map anchor_score p"
  using assms by (simp add: np_max_drop)

lemma decode_eq:
  assumes "squeeze_T outputs = Inr predictions" and "4 < length outputs"
  shows "decode self outputs =
     Inr (filter (\<lambda>row. float32 (conf_threshold self) < anchor_score row) predictions,
          map anchor_score
            (filter (\<lambda>row. float32 (conf_threshold self) < anchor_score row) predictions),
          map (\<lambda>row. np_argmax (drop 4 row))
            (filter (\<lambda>row. float32 (conf_threshold self) < anchor_score row) predictions))"
proof -
  from squeeze_T_shape [OF assms(1)] assms(2)
  have rows: "\<forall>row \<in> set predictions. 4 < length row"
    by simp
  from assms(2) have ncol: "length outputs - 4 \<noteq> 0"
    by simp
  have sc: "max_axis1 (length outputs - 4) (map (drop 4) predictions)
      = Inr (map anchor_score predictions)"
    using ncol scores_of_rows [OF rows] by (simp add: max_axis1_def)
  have m: "map (\<lambda>s. float32 (conf_threshold self) < s) (map anchor_score predictions)
      = map (\<lambda>row. float32 (conf_threshold self) < anchor_score row) predictions"
    by simp
  show ?thesis
    unfolding decode_def assms(1)
    by (simp only: sum.case Let_def sc m boolean_index_map boolean_index_filter)
      (simp add: filter_map o_def)
qed

lemma decode_few_fields:
  assumes "squeeze_T outputs = Inr predictions" and "length outputs \<le> 4"
  shows "decode self outputs = Inl ValueError"
  unfolding decode_def assms(1) using assms(2) by (simp add: max_axis1_def)

lemma decode_collapsed:
  assumes "length outputs = 1 \<or> anchors outputs = 1"
  shows "decode self outputs = Inl IndexError"
  unfolding decode_def squeeze_T_Inl [OF assms] by simp

lemma decode_Inr_shape:
  assumes "decode self outputs = Inr r"
  shows "\<exists>predictions. squeeze_T outputs = Inr predictions \<and> 4 < length outputs"
proof (cases "squeeze_T outputs")
  case (Inl e)
  with assms show ?thesis
    by (simp add: decode_def)
next
  case (Inr predictions)
  have "4 < length outputs"
  proof (rule ccontr)
    assume "\<not> 4 < length outputs"
    then have "length outputs \<le> 4"
      by simp
    with Inr have "decode self outputs = Inl ValueError"
      by (rule decode_few_fields)
    with assms show False
      by simp
  qed
  with Inr show ?thesis
    by blast
qed

lemma decode_lengths:
  assumes "decode self P = Inr (rows, scores, class_ids)"
  shows "length scores = length rows \<and> length class_ids = length rows"
proof -
  from decode_Inr_shape [OF assms] obtain predictions
    where "squeeze_T P = Inr predictions" and "4 < length P"
    by blast
  from decode_eq [OF this, of self] assms show ?thesis
    by auto
qed

lemma decode_frame:
  "decode (self\<lparr>img := a, img_height := b, img_width := c\<rparr>) P = decode self P"
  by (simp add: decode_def Let_def split: sum.split)

text \<open>
  Claim C3, as the code has it. The comparison of line 78 is made in float32: for every
  tensor with at least one class field and with more than one anchor or none, and for
  every confidence threshold, the decoding keeps exactly the anchors whose score (the
  maximum of the class fields) is strictly above the threshold rounded to float32, in
  their order, with that score and the argmax as class. Every kept anchor has a score
  above the rounded threshold, and no anchor with a score at or below it is kept.
\<close>

theorem decode_confidence_threshold:
  assumes "4 < length outputs" and "anchors outputs \<noteq> 1"
  shows "\<exists>predictions rows.
       squeeze_T outputs = Inr predictions
     \<and> rows = filter (\<lambda>row. float32 (conf_threshold self) < anchor_score row) predictions
     \<and> decode self outputs
         = Inr (rows, map anchor_score rows, map (\<lambda>row. np_argmax (drop 4 row)) rows)
     \<and> (\<forall>row \<in> set rows. float32 (conf_threshold self) < anchor_score row)
     \<and> (\<forall>row \<in> set predictions.
           anchor_score row \<le> float32 (conf_threshold self) \<longrightarrow> row \<notin> set rows)"
proof -
  let ?predictions = "map (\<lambda>a. map (\<lambda>field. field ! a) outputs) [0..<anchors outputs]"
  let ?rows = "filter (\<lambda>row. float32 (conf_threshold self) < anchor_score row) ?predictions"
  from assms have sq: "squeeze_T outputs = Inr ?predictions"
    by (simp add: squeeze_T_Inr)
  have "decode self outputs
      = Inr (?rows, map anchor_score ?rows, map (\<lambda>row. np_argmax (drop 4 row)) ?rows)"
    using sq assms(1) by (rule decode_eq)
  moreover have "\<forall>row \<in> set ?rows. float32 (conf_threshold self) < anchor_score row"
    by simp
  moreover have "\<forall>row \<in> set ?predictions.
      anchor_score row \<le> float32 (conf_threshold self) \<longrightarrow> row \<notin> set ?rows"
    by simp
  ultimately show ?thesis
    using sq by blast
qed

text \<open>
  Claim C3 on an example: of two anchors with scores 0.9 and 0.3 the first is kept; the
  threshold 0.4 is compared as the float32 13421773 / 33554432.
\<close>

theorem decode_confidence_threshold_witness:
  "length mixed_outputs = 6
   \<and> anchors mixed_outputs = 2
   \<and> squeeze_T mixed_outputs
       = Inr [[320, 320, 64, 64, 1 / 10, 9 / 10], [100, 100, 32, 32, 3 / 10, 1 / 5]]
   \<and> float32 (conf_threshold example_detector) = 13421773 / 33554432
   \<and> decode example_detector mixed_outputs
       = Inr ([[320, 320, 64, 64, 1 / 10, 9 / 10]], [9 / 10], [1])"
proof -
  have l: "4 < length mixed_outputs" and a: "anchors mixed_outputs \<noteq> 1"
    by (simp_all add: mixed_outputs_def anchors_def)
  have l6: "length mixed_outputs = 6" and a2: "anchors mixed_outputs = 2"
    by (simp_all add: mixed_outputs_def anchors_def)
  have sq: "squeeze_T mixed_outputs
       = Inr [[320, 320, 64, 64, 1 / 10, 9 / 10], [100, 100, 32, 32, 3 / 10, 1 / 5]]"
    by code_simp
  have t: "float32 (conf_threshold example_detector) = 13421773 / 33554432"
    by code_simp
  from decode_confidence_threshold [OF l a, of example_detector]
  have "decode example_detector mixed_outputs
       = Inr ([[320, 320, 64, 64, 1 / 10, 9 / 10]], [9 / 10], [1])"
    unfolding sq t by (auto simp: anchor_score_def np_argmax_def np_max_def)
  with l6 a2 sq t show ?thesis
    by blast
qed

text \<open>
  Claim C3 as stated fails: the first anchor of the tensor has the score
  13421773 / 33554432, which is strictly greater than the threshold 0.4 of the detector,
  and the decoding does not keep it, because the threshold rounds to that very value.
\<close>

theorem threshold_rounded_counterexample:
  "squeeze_T edge_outputs
       = Inr [[320, 320, 64, 64, 1 / 10, 13421773 / 33554432], [100, 100, 32, 32, 9 / 10, 1 / 5]]
   \<and> anchor_score [320, 320, 64, 64, 1 / 10, 13421773 / 33554432] = 13421773 / 33554432
   \<and> conf_threshold example_detector < 13421773 / 33554432
   \<and> decode example_detector edge_outputs = Inr ([[100, 100, 32, 32, 9 / 10, 1 / 5]], [9 / 10], [0])"
proof -
  have "squeeze_T edge_outputs
       = Inr [[320, 320, 64, 64, 1 / 10, 13421773 / 33554432], [100, 100, 32, 32, 9 / 10, 1 / 5]]"
    by code_simp
  moreover have "anchor_score [320, 320, 64, 64, 1 / 10, 13421773 / 33554432] = 13421773 / 33554432"
    by (simp add: anchor_score_def)
  moreover have "conf_threshold example_detector < 13421773 / 33554432"
    by (simp add: example_detector_def)
  moreover have "decode example_detector edge_outputs
      = Inr ([[100, 100, 32, 32, 9 / 10, 1 / 5]], [9 / 10], [0])"
    by code_simp
  ultimately show ?thesis
    by blast
qed




section \<open>Properties of the whole call\<close>

lemma sequence_sum_Inl:
  assumes "\<forall>x \<in> set xs. \<forall>e. x = Inl e \<longrightarrow> e = c"
    and "\<exists>x \<in> set xs. \<exists>e. x = Inl e"
  shows "sequence_sum xs = Inl c"
  using assms
proof (induction xs)
  case Nil
  then show ?case by simp
next
  case (Cons x xs)
  show ?case
  proof (cases x)
    case (Inl e)
    with Cons.prems(1) have "e = c" by simp
    with Inl show ?thesis by simp
  next
    case (Inr v)
    with Cons.prems(2) have "\<exists>y \<in> set xs. \<exists>e. y = Inl e" by auto
    moreover from Cons.prems(1) have "\<forall>y \<in> set xs. \<forall>e. y = Inl e \<longrightarrow> e = c" by simp
    ultimately have "sequence_sum xs = Inl c" by (rule Cons.IH [rotated])
    with Inr show ?thesis by simp
  qed
qed

lemma rescale_frame:
  "rescale (self\<lparr>img := a, img_height := b, img_width := c\<rparr>) = rescale self"
  by (rule ext) (simp add: rescale_def)

lemma make_detection_frame:
  "make_detection (self\<lparr>img := a, img_height := b, img_width := c\<rparr>) = make_detection self"
  by (rule ext) (simp add: make_detection_def get_label_name_def split: prod.split)

lemma postprocess_frame:
  "postprocess (self\<lparr>img := a, img_height := b, img_width := c\<rparr>) P = postprocess self P"
  unfolding postprocess_def nms_boxes_def decode_frame rescale_frame make_detection_frame
  by (simp add: Let_def split: sum.split prod.split)

lemma detect_eq:
  "detect cv self im =
     (postprocess self (session self (cv (input_width self) (input_height self) (pixels im))),
      self\<lparr>img := Some im, img_height := Some (shape0 im), img_width := Some (shape1 im)\<rparr>)"
  by (simp add: detect_def preprocess_def Let_def postprocess_frame)

lemma NMSBoxes_empty: "NMSBoxes [] [] st nt = EmptyTuple"
  by (simp add: NMSBoxes_def suppress_def)

lemma postprocess_no_candidate:
  assumes "decode self P = Inr ([], [], [])"
  shows "postprocess self P = Inr []"
  unfolding postprocess_def assms
  by (simp add: nms_boxes_def NMSBoxes_empty selected_def)

lemma sequence_sum_Inr_D: "sequence_sum xs = Inr ys \<Longrightarrow> xs = map Inr ys"
  by (induction xs arbitrary: ys) (auto split: sum.splits)

lemma make_detection_Inr:
  assumes "make_detection self (b, s, l) = Inr d"
  shows "box d = b \<and> confidence d = s \<and> class_index d = l"
  using assms by (auto simp: make_detection_def split: sum.splits)

lemma make_detection_Inl: "make_detection self t = Inl e \<Longrightarrow> e = IndexError"
  by (cases t) (auto simp: make_detection_def get_label_name_def split: sum.splits if_splits)

lemma make_detection_bad:
  "length (classes self) \<le> snd (snd t) \<Longrightarrow> make_detection self t = Inl IndexError"
  by (cases t) (simp add: make_detection_def get_label_name_def)

lemma assembled_fields:
  assumes "sequence_sum (map (make_detection self) ts) = Inr ds"
  shows "map box ds = map fst ts \<and> map confidence ds = map (\<lambda>t. fst (snd t)) ts
     \<and> map class_index ds = map (\<lambda>t. snd (snd t)) ts"
proof -
  from assms have eq: "map (make_detection self) ts = map Inr ds"
    by (rule sequence_sum_Inr_D)
  then have len: "length ts = length ds"
    by (metis length_map)
  have each: "box (ds ! k) = fst (ts ! k) \<and> confidence (ds ! k) = fst (snd (ts ! k))
      \<and> class_index (ds ! k) = snd (snd (ts ! k))" if "k < length ts" for k
  proof -
    from eq that len have "make_detection self (ts ! k) = Inr (ds ! k)"
      by (metis nth_map)
    then have "make_detection self (fst (ts ! k), fst (snd (ts ! k)), snd (snd (ts ! k))) = Inr (ds ! k)"
      by simp
    then show ?thesis
      by (rule make_detection_Inr)
  qed
  show ?thesis
    using len each by (simp add: list_eq_iff_nth_eq)
qed

lemma selected_fields:
  assumes "length boxes = length scores" and "length class_ids = length scores"
  shows "map fst (selected boxes scores class_ids ix) = map xywh2xyxy (getitem boxes ix)"
    and "map (\<lambda>t. fst (snd t)) (selected boxes scores class_ids ix) = getitem scores ix"
    and "map (\<lambda>t. snd (snd t)) (selected boxes scores class_ids ix) = getitem class_ids ix"
proof -
  have l1: "length (getitem scores ix) = length (getitem boxes ix)"
    using assms by (cases ix) simp_all
  have l2: "length (getitem class_ids ix) = length (getitem boxes ix)"
    using assms by (cases ix) simp_all
  have z: "length (zip (getitem scores ix) (getitem class_ids ix)) = length (map xywh2xyxy (getitem boxes ix))"
    using l1 l2 by simp
  show "map fst (selected boxes scores class_ids ix) = map xywh2xyxy (getitem boxes ix)"
    unfolding selected_def using z by (simp only: map_fst_zip)
  have s: "map snd (selected boxes scores class_ids ix) = zip (getitem scores ix) (getitem class_ids ix)"
    unfolding selected_def using z by (simp only: map_snd_zip)
  have "map (\<lambda>t. fst (snd t)) (selected boxes scores class_ids ix)
      = map fst (map snd (selected boxes scores class_ids ix))"
    by simp
  also have "\<dots> = getitem scores ix"
    unfolding s using l1 l2 by simp
  finally show "map (\<lambda>t. fst (snd t)) (selected boxes scores class_ids ix) = getitem scores ix" .
  have "map (\<lambda>t. snd (snd t)) (selected boxes scores class_ids ix)
      = map snd (map snd (selected boxes scores class_ids ix))"
    by simp
  also have "\<dots> = getitem class_ids ix"
    unfolding s using l1 l2 by simp
  finally show "map (\<lambda>t. snd (snd t)) (selected boxes scores class_ids ix) = getitem class_ids ix" .
qed

lemma postprocess_eq:
  assumes "decode self P = Inr (rows, scores, class_ids)"
  shows "postprocess self P =
     sequence_sum (map (make_detection self)
       (selected (nms_boxes self rows) scores class_ids
          (NMSBoxes (nms_boxes self rows) scores (score_threshold self) (iou_threshold self))))"
  unfolding postprocess_def assms by (simp add: Let_def)

lemma NMSBoxes_IndexArray:
  assumes "NMSBoxes boxes scores st nt = IndexArray ix"
  shows "ix = suppress rect_overlap boxes scores st nt"
  using assms by (simp add: NMSBoxes_def Let_def split: if_splits)

lemma postprocess_boxes:
  assumes "decode self outputs = Inr (rows, scores, class_ids)"
    and "postprocess self outputs = Inr ds"
  shows "map box ds
       = map xywh2xyxy
           (getitem (map (rescale self) rows)
              (NMSBoxes (map (rescale self) rows) scores (score_threshold self) (iou_threshold self)))"
proof -
  let ?boxes = "nms_boxes self rows"
  from decode_lengths [OF assms(1)]
  have len: "length ?boxes = length scores" "length class_ids = length scores"
    by (simp_all add: nms_boxes_def)
  from assms(2) have "sequence_sum (map (make_detection self)
      (selected ?boxes scores class_ids
         (NMSBoxes ?boxes scores (score_threshold self) (iou_threshold self)))) = Inr ds"
    unfolding postprocess_eq [OF assms(1)] .
  from assembled_fields [OF this]
  have "map box ds = map xywh2xyxy
      (getitem ?boxes (NMSBoxes ?boxes scores (score_threshold self) (iou_threshold self)))"
    unfolding selected_fields [OF len] by simp
  then show ?thesis
    unfolding nms_boxes_def .
qed

lemma rescale_row:
  "rescale self (cx # cy # w # h # cls)
     = [astype_int32 (multiply_f32 (divide_f32 cx (input_width self)) (image_width self)),
        astype_int32 (multiply_f32 (divide_f32 cy (input_height self)) (image_height self)),
        astype_int32 (multiply_f32 (divide_f32 w (input_width self)) (image_width self)),
        astype_int32 (multiply_f32 (divide_f32 h (input_height self)) (image_height self))]"
  by (simp add: rescale_def)

text \<open>
  Values of the float32 arithmetic on the examples, computed once: the threshold 0.4 as
  line 78 compares it, and the entries of the rescaled boxes.
\<close>

lemma float32_threshold: "float32 (2 / 5) = 13421773 / 33554432"
  by code_simp

lemma rescale_entries:
  "astype_int32 (multiply_f32 (divide_f32 320 640) 1280) = 640"
  "astype_int32 (multiply_f32 (divide_f32 320 640) 720) = 360"
  "astype_int32 (multiply_f32 (divide_f32 64 640) 1280) = 128"
  "astype_int32 (multiply_f32 (divide_f32 64 640) 720) = 72"
  "astype_int32 (multiply_f32 (divide_f32 100 640) 1280) = 200"
  "astype_int32 (multiply_f32 (divide_f32 100 640) 720) = 112"
  "astype_int32 (multiply_f32 (divide_f32 32 640) 1280) = 64"
  "astype_int32 (multiply_f32 (divide_f32 32 640) 720) = 36"
  by code_simp+

lemmas decode_defs =
  decode_def squeeze_T_def anchors_def max_axis1_def np_max_def np_argmax_def
  boolean_index_def float32_threshold Let_def

lemmas pipeline_defs =
  postprocess_def decode_defs nms_boxes_def rescale_def rescale_entries
  NMSBoxes_def suppress_def rect_overlap_def selected_def xywh2xyxy_def make_detection_def
  get_label_name_def

text \<open>
  For a tensor that line 76 leaves as a matrix and that has a class field: when no
  anchor has a score above the rounded confidence threshold, \<^verbatim>\<open>postprocess\<close> returns
  the empty list and raises nothing, and so does \<^verbatim>\<open>detect\<close> on an image for which the
  session returns that tensor.
\<close>

lemma nothing_above_threshold:
  assumes "squeeze_T outputs = Inr predictions" and "4 < length outputs"
    and "\<forall>row \<in> set predictions. anchor_score row \<le> float32 (conf_threshold self)"
  shows "postprocess self outputs = Inr []
     \<and> (session self (cv (input_width self) (input_height self) (pixels im)) = outputs
          \<longrightarrow> fst (detect cv self im) = Inr [])"
proof -
  from assms(3)
  have "filter (\<lambda>row. float32 (conf_threshold self) < anchor_score row) predictions = []"
    by (simp add: filter_empty_conv not_less)
  with decode_eq [OF assms(1) assms(2), of self] have "decode self outputs = Inr ([], [], [])"
    by simp
  then have "postprocess self outputs = Inr []"
    by (rule postprocess_no_candidate)
  then show ?thesis
    by (simp add: detect_eq)
qed

lemma nothing_above_threshold_example:
  "postprocess example_detector quiet_outputs = Inr []"
  by (simp add: pipeline_defs example_detector_def quiet_outputs_def)

text \<open>
  Claim C7 fails on the code. The tensor has a single anchor, whose score 0.2 is below
  the confidence threshold 0.4, so no anchor exceeds the threshold. Line 76 squeezes the
  anchor axis away with the batch axis, the slice of line 77 raises
  \<^verbatim>\<open>IndexError\<close>, and \<^verbatim>\<open>postprocess\<close> returns no list.
\<close>

theorem single_anchor_raises:
  "length single_anchor_outputs = 6
   \<and> anchors single_anchor_outputs = 1
   \<and> np_max [1 / 10, 1 / 5] = 1 / 5
   \<and> conf_threshold example_detector = 2 / 5
   \<and> postprocess example_detector single_anchor_outputs = Inl IndexError"
proof -
  have "length single_anchor_outputs = 6" and "anchors single_anchor_outputs = 1"
    by (simp_all add: single_anchor_outputs_def anchors_def)
  moreover have "np_max [1 / 10, 1 / 5] = 1 / 5"
    by (simp add: np_max_def)
  moreover have "conf_threshold example_detector = 2 / 5"
    by (simp add: example_detector_def)
  moreover have "postprocess example_detector single_anchor_outputs = Inl IndexError"
    by (simp add: pipeline_defs example_detector_def single_anchor_outputs_def)
  ultimately show ?thesis
    by blast
qed

section \<open>Properties of the assembly\<close>

text \<open>
  Claim C1, as the code has it. When the suppressor keeps at least one candidate, the
  detection list follows the kept indices: the confidences and classes of the detections
  are those of the kept candidates in the order the suppressor returned them, which is
  descending score with equal scores in ascending order of the candidate index. The
  detections are therefore in descending order of confidence; the class index plays no
  part in the order.
\<close>

theorem detections_follow_kept_indices:
  assumes "decode self outputs = Inr (rows, scores, class_ids)"
    and "NMSBoxes (nms_boxes self rows) scores (score_threshold self) (iou_threshold self)
           = IndexArray ix"
    and "postprocess self outputs = Inr ds"
  shows "map confidence ds = map (\<lambda>i. scores ! i) ix
     \<and> map class_index ds = map (\<lambda>i. class_ids ! i) ix
     \<and> sorted_wrt (\<lambda>i j. scores ! j < scores ! i \<or> (scores ! i = scores ! j \<and> i < j)) ix
     \<and> sorted_wrt (\<lambda>a b. confidence b \<le> confidence a) ds"
proof -
  let ?boxes = "nms_boxes self rows"
  from decode_lengths [OF assms(1)]
  have len: "length ?boxes = length scores" "length class_ids = length scores"
    by (simp_all add: nms_boxes_def)
  from assms(3) have "sequence_sum (map (make_detection self)
      (selected ?boxes scores class_ids (IndexArray ix))) = Inr ds"
    unfolding postprocess_eq [OF assms(1)] assms(2) .
  from assembled_fields [OF this]
  have conf: "map confidence ds = map (\<lambda>i. scores ! i) ix"
    and cls: "map class_index ds = map (\<lambda>i. class_ids ! i) ix"
    unfolding selected_fields [OF len] by simp_all
  have ord: "sorted_wrt (\<lambda>i j. scores ! j < scores ! i \<or> (scores ! i = scores ! j \<and> i < j)) ix"
    unfolding NMSBoxes_IndexArray [OF assms(2)] by (rule suppress_order)
  have "sorted_wrt (\<lambda>i j. scores ! j \<le> scores ! i) ix"
  proof (rule sorted_wrt_mono_rel [OF _ ord])
    fix i j
    assume "scores ! j < scores ! i \<or> (scores ! i = scores ! j \<and> i < j)"
    then show "scores ! j \<le> scores ! i"
      by linarith
  qed
  then have "sorted_wrt (\<lambda>x y. y \<le> x) (map (\<lambda>i. scores ! i) ix)"
    by (simp only: sorted_wrt_map)
  then have "sorted_wrt (\<lambda>x y. y \<le> x) (map confidence ds)"
    by (simp only: conf)
  then have "sorted_wrt (\<lambda>a b. confidence b \<le> confidence a) ds"
    by (simp only: sorted_wrt_map)
  with conf cls ord show ?thesis
    by blast
qed

text \<open>
  Claim C1 on an example: the second anchor scores higher and comes first.
\<close>

theorem detections_follow_kept_indices_witness:
  "decode example_detector rising_outputs = Inr (rising_predictions, [1 / 2, 9 / 10], [1, 0])
   \<and> NMSBoxes (nms_boxes example_detector rising_predictions) [1 / 2, 9 / 10]
        (score_threshold example_detector) (iou_threshold example_detector) = IndexArray [1, 0]
   \<and> postprocess example_detector rising_outputs
        = Inr [\<lparr>class_index = 0, confidence = 9 / 10, box = [168, 94, 232, 130], class_name = ''person''\<rparr>,
               \<lparr>class_index = 1, confidence = 1 / 2, box = [576, 324, 704, 396], class_name = ''car''\<rparr>]
   \<and> sorted_wrt (\<lambda>a b. confidence b \<le> confidence a)
        [\<lparr>class_index = 0, confidence = 9 / 10, box = [168, 94, 232, 130], class_name = ''person''\<rparr>,
         \<lparr>class_index = 1, confidence = 1 / 2, box = [576, 324, 704, 396], class_name = ''car''\<rparr>]"
proof -
  have d: "decode example_detector rising_outputs
      = Inr (rising_predictions, [1 / 2, 9 / 10], [1, 0])"
    by (simp add: pipeline_defs example_detector_def rising_outputs_def rising_predictions_def)
  have n: "NMSBoxes (nms_boxes example_detector rising_predictions) [1 / 2, 9 / 10]
        (score_threshold example_detector) (iou_threshold example_detector) = IndexArray [1, 0]"
    by (simp add: pipeline_defs example_detector_def rising_outputs_def rising_predictions_def)
  have p: "postprocess example_detector rising_outputs
        = Inr [\<lparr>class_index = 0, confidence = 9 / 10, box = [168, 94, 232, 130], class_name = ''person''\<rparr>,
               \<lparr>class_index = 1, confidence = 1 / 2, box = [576, 324, 704, 396], class_name = ''car''\<rparr>]"
    by (simp add: pipeline_defs example_detector_def rising_outputs_def rising_predictions_def)
  from detections_follow_kept_indices [OF d n p] d n p show ?thesis
    by blast
qed

text \<open>
  Claim C1 as stated fails: two anchors of equal confidence that do not overlap are
  returned in the order of their indices, class 1 before class 0.
\<close>

theorem order_counterexample:
  "postprocess example_detector example_outputs
     = Inr [\<lparr>class_index = 1, confidence = 9 / 10, box = [576, 324, 704, 396], class_name = ''car''\<rparr>,
            \<lparr>class_index = 0, confidence = 9 / 10, box = [168, 94, 232, 130], class_name = ''person''\<rparr>]
   \<and> \<not> spec_order
        [\<lparr>class_index = 1, confidence = 9 / 10, box = [576, 324, 704, 396], class_name = ''car''\<rparr>,
         \<lparr>class_index = 0, confidence = 9 / 10, box = [168, 94, 232, 130], class_name = ''person''\<rparr>]"
proof -
  have "postprocess example_detector example_outputs
     = Inr [\<lparr>class_index = 1, confidence = 9 / 10, box = [576, 324, 704, 396], class_name = ''car''\<rparr>,
            \<lparr>class_index = 0, confidence = 9 / 10, box = [168, 94, 232, 130], class_name = ''person''\<rparr>]"
    by (simp add: pipeline_defs example_detector_def example_outputs_def)
  moreover have "\<not> spec_order
        [\<lparr>class_index = 1, confidence = 9 / 10, box = [576, 324, 704, 396], class_name = ''car''\<rparr>,
         \<lparr>class_index = 0, confidence = 9 / 10, box = [168, 94, 232, 130], class_name = ''person''\<rparr>]"
    by (simp add: spec_order_def)
  ultimately show ?thesis
    by (rule conjI)
qed

text \<open>
  Claim C2, as the code has it. The conversion from centre and size to corners is applied
  after the suppression, to the boxes the suppressor's result selects: the suppressor is
  called with the rescaled integer boxes in centre and size form, and the box of each
  detection is \<^verbatim>\<open>xywh2xyxy\<close> of a selected one.
\<close>

theorem boxes_converted_after_suppression:
  assumes "decode self outputs = Inr (rows, scores, class_ids)"
    and "postprocess self outputs = Inr ds"
  shows "map box ds
       = map xywh2xyxy
           (getitem (map (rescale self) rows)
              (NMSBoxes (map (rescale self) rows) scores (score_threshold self) (iou_threshold self)))"
proof -
  let ?boxes = "nms_boxes self rows"
  from decode_lengths [OF assms(1)]
  have len: "length ?boxes = length scores" "length class_ids = length scores"
    by (simp_all add: nms_boxes_def)
  from assms(2) have "sequence_sum (map (make_detection self)
      (selected ?boxes scores class_ids
         (NMSBoxes ?boxes scores (score_threshold self) (iou_threshold self)))) = Inr ds"
    unfolding postprocess_eq [OF assms(1)] .
  from assembled_fields [OF this]
  have "map box ds = map xywh2xyxy
      (getitem ?boxes (NMSBoxes ?boxes scores (score_threshold self) (iou_threshold self)))"
    unfolding selected_fields [OF len] by simp
  then show ?thesis
    unfolding nms_boxes_def .
qed

text \<open>
  Claim C2 on the example detector and tensor.
\<close>

theorem boxes_converted_after_suppression_witness:
  "decode example_detector example_outputs = Inr (example_predictions, [9 / 10, 9 / 10], [1, 0])
   \<and> postprocess example_detector example_outputs
       = Inr [\<lparr>class_index = 1, confidence = 9 / 10, box = [576, 324, 704, 396], class_name = ''car''\<rparr>,
              \<lparr>class_index = 0, confidence = 9 / 10, box = [168, 94, 232, 130], class_name = ''person''\<rparr>]
   \<and> map xywh2xyxy
        (getitem (map (rescale example_detector) example_predictions)
           (NMSBoxes (map (rescale example_detector) example_predictions) [9 / 10, 9 / 10]
              (score_threshold example_detector) (iou_threshold example_detector)))
       = [[576, 324, 704, 396], [168, 94, 232, 130]]"
proof -
  have d: "decode example_detector example_outputs
      = Inr (example_predictions, [9 / 10, 9 / 10], [1, 0])"
    by (simp add: pipeline_defs example_detector_def example_outputs_def example_predictions_def)
  have p: "postprocess example_detector example_outputs
       = Inr [\<lparr>class_index = 1, confidence = 9 / 10, box = [576, 324, 704, 396], class_name = ''car''\<rparr>,
              \<lparr>class_index = 0, confidence = 9 / 10, box = [168, 94, 232, 130], class_name = ''person''\<rparr>]"
    by (simp add: pipeline_defs example_detector_def example_outputs_def example_predictions_def)
  from boxes_converted_after_suppression [OF d p] d p show ?thesis
    by simp
qed

text \<open>
  Claim C2 as stated fails: the boxes handed to the suppressor for the example are the
  centre and size boxes, not the corners.
\<close>

theorem suppress_input_counterexample:
  "decode example_detector example_outputs = Inr (example_predictions, [9 / 10, 9 / 10], [1, 0])
   \<and> nms_boxes example_detector example_predictions = [[640, 360, 128, 72], [200, 112, 64, 36]]
   \<and> spec_suppress_input example_detector example_predictions
        = [[576, 324, 704, 396], [168, 94, 232, 130]]
   \<and> map (map real_of_int) (nms_boxes example_detector example_predictions)
        \<noteq> spec_suppress_input example_detector example_predictions"
proof -
  have d: "decode example_detector example_outputs
      = Inr (example_predictions, [9 / 10, 9 / 10], [1, 0])"
    by (simp add: pipeline_defs example_detector_def example_outputs_def example_predictions_def)
  have n: "nms_boxes example_detector example_predictions
      = [[640, 360, 128, 72], [200, 112, 64, 36]]"
    by (simp add: pipeline_defs example_detector_def example_outputs_def example_predictions_def)
  have s: "spec_suppress_input example_detector example_predictions
        = [[576, 324, 704, 396], [168, 94, 232, 130]]"
    unfolding spec_suppress_input_def
    by (simp add: pipeline_defs example_detector_def example_predictions_def)
  have "map (map real_of_int) (nms_boxes example_detector example_predictions)
        \<noteq> spec_suppress_input example_detector example_predictions"
    unfolding n s by simp
  with d n s show ?thesis
    by blast
qed

text \<open>
  Claim C4 fails on the code. With \<^verbatim>\<open>score_thres = 0.9\<close> and two anchors of score 0.5
  that pass the confidence threshold 0.4, no candidate reaches the score threshold, the
  suppressor keeps nothing, cv2 returns the empty tuple, and indexing with the empty
  tuple selects every candidate: both are returned as detections.
\<close>

theorem below_score_threshold_returned:
  "conf_threshold strict_detector = 2 / 5
   \<and> score_threshold strict_detector = 9 / 10
   \<and> decode strict_detector weak_outputs = Inr (weak_predictions, [1 / 2, 1 / 2], [1, 0])
   \<and> NMSBoxes (nms_boxes strict_detector weak_predictions) [1 / 2, 1 / 2]
        (score_threshold strict_detector) (iou_threshold strict_detector) = EmptyTuple
   \<and> postprocess strict_detector weak_outputs
       = Inr [\<lparr>class_index = 1, confidence = 1 / 2, box = [576, 324, 704, 396], class_name = ''car''\<rparr>,
              \<lparr>class_index = 0, confidence = 1 / 2, box = [168, 94, 232, 130], class_name = ''person''\<rparr>]"
proof -
  have "conf_threshold strict_detector = 2 / 5" and "score_threshold strict_detector = 9 / 10"
    by (simp_all add: strict_detector_def example_detector_def)
  moreover have "decode strict_detector weak_outputs = Inr (weak_predictions, [1 / 2, 1 / 2], [1, 0])"
    by (simp add: pipeline_defs strict_detector_def weak_outputs_def weak_predictions_def example_detector_def)
  moreover have "NMSBoxes (nms_boxes strict_detector weak_predictions) [1 / 2, 1 / 2]
        (score_threshold strict_detector) (iou_threshold strict_detector) = EmptyTuple"
    by (simp add: pipeline_defs strict_detector_def weak_outputs_def weak_predictions_def example_detector_def)
  moreover have "postprocess strict_detector weak_outputs
       = Inr [\<lparr>class_index = 1, confidence = 1 / 2, box = [576, 324, 704, 396], class_name = ''car''\<rparr>,
              \<lparr>class_index = 0, confidence = 1 / 2, box = [168, 94, 232, 130], class_name = ''person''\<rparr>]"
    by (simp add: pipeline_defs strict_detector_def weak_outputs_def weak_predictions_def example_detector_def)
  ultimately show ?thesis
    by blast
qed

text \<open>
  Claim C6. When the class of a selected candidate has no entry in the class names (it
  is not below their number), \<^verbatim>\<open>postprocess\<close> raises the \<^verbatim>\<open>IndexError\<close> of the
  list lookup of line 101 and returns no detection.
\<close>

theorem unknown_class_raises:
  assumes "decode self outputs = Inr (rows, scores, class_ids)"
    and "\<exists>c \<in> set (getitem class_ids
           (NMSBoxes (nms_boxes self rows) scores (score_threshold self) (iou_threshold self))).
           length (classes self) \<le> c"
  shows "postprocess self outputs = Inl IndexError"
proof -
  let ?boxes = "nms_boxes self rows"
  let ?ix = "NMSBoxes ?boxes scores (score_threshold self) (iou_threshold self)"
  let ?sel = "selected ?boxes scores class_ids ?ix"
  from decode_lengths [OF assms(1)]
  have len: "length ?boxes = length scores" "length class_ids = length scores"
    by (simp_all add: nms_boxes_def)
  have labels: "map (\<lambda>t. snd (snd t)) ?sel = getitem class_ids ?ix"
    by (rule selected_fields(3) [OF len])
  from assms(2) obtain c where c: "c \<in> set (map (\<lambda>t. snd (snd t)) ?sel)"
    and big: "length (classes self) \<le> c"
    unfolding labels by blast
  from c obtain t where t: "t \<in> set ?sel" and "c = snd (snd t)"
    by auto
  with big have bad: "make_detection self t = Inl IndexError"
    by (simp add: make_detection_bad)
  have "sequence_sum (map (make_detection self) ?sel) = Inl IndexError"
  proof (rule sequence_sum_Inl)
    show "\<forall>x \<in> set (map (make_detection self) ?sel). \<forall>e. x = Inl e \<longrightarrow> e = IndexError"
      by (auto dest: make_detection_Inl)
    from t have "make_detection self t \<in> set (map (make_detection self) ?sel)"
      by simp
    with bad show "\<exists>x \<in> set (map (make_detection self) ?sel). \<exists>e. x = Inl e"
      by metis
  qed
  then show ?thesis
    unfolding postprocess_eq [OF assms(1)] .
qed

text \<open>
  Claim C6 on an example: three class fields, two class names, and the third class wins.
\<close>

theorem unknown_class_raises_witness:
  "decode example_detector three_class_outputs
       = Inr ([[320, 320, 64, 64, 1 / 10, 1 / 5, 9 / 10]], [9 / 10], [2])
   \<and> (\<exists>c \<in> set (getitem [2]
          (NMSBoxes (nms_boxes example_detector [[320, 320, 64, 64, 1 / 10, 1 / 5, 9 / 10]]) [9 / 10]
             (score_threshold example_detector) (iou_threshold example_detector))).
          length (classes example_detector) \<le> c)
   \<and> postprocess example_detector three_class_outputs = Inl IndexError"
proof -
  have d: "decode example_detector three_class_outputs
       = Inr ([[320, 320, 64, 64, 1 / 10, 1 / 5, 9 / 10]], [9 / 10], [2])"
    by (simp add: pipeline_defs example_detector_def three_class_outputs_def)
  have n: "NMSBoxes (nms_boxes example_detector [[320, 320, 64, 64, 1 / 10, 1 / 5, 9 / 10]]) [9 / 10]
             (score_threshold example_detector) (iou_threshold example_detector) = IndexArray [0]"
    by (simp add: pipeline_defs example_detector_def three_class_outputs_def)
  have c: "\<exists>c \<in> set (getitem [2]
          (NMSBoxes (nms_boxes example_detector [[320, 320, 64, 64, 1 / 10, 1 / 5, 9 / 10]]) [9 / 10]
             (score_threshold example_detector) (iou_threshold example_detector))).
          length (classes example_detector) \<le> c"
    unfolding n by (simp add: example_detector_def)
  from unknown_class_raises [OF d c] d c show ?thesis
    by blast
qed

text \<open>
  Claim C9, as the code has it. \<^verbatim>\<open>detect\<close> writes three fields of the detector, the
  current image and its height and width, and no other. The detections it returns are
  those of \<^verbatim>\<open>postprocess\<close> on the session's output for the image, and they do not
  depend on what the three fields held before the call.
\<close>

theorem detect_writes_image_fields:
  "snd (detect cv self im)
     = self\<lparr>img := Some im, img_height := Some (shape0 im), img_width := Some (shape1 im)\<rparr>
   \<and> fst (detect cv self im)
     = postprocess self (session self (cv (input_width self) (input_height self) (pixels im)))
   \<and> fst (detect cv (self\<lparr>img := a, img_height := b, img_width := c\<rparr>) im)
     = fst (detect cv self im)"
  by (simp add: detect_eq postprocess_frame)

text \<open>Claim C9 on the example detector and image.\<close>

theorem detect_writes_image_fields_witness:
  "snd (detect (\<lambda>w h p. ()) example_detector example_image)
     = example_detector\<lparr>img := Some example_image, img_height := Some 480, img_width := Some 640\<rparr>
   \<and> fst (detect (\<lambda>w h p. ()) example_detector example_image)
     = postprocess example_detector example_outputs"
  using detect_writes_image_fields [of "\<lambda>w h p. ()" example_detector example_image None None None]
  by (simp add: example_image_def example_detector_def)

text \<open>
  Claim C9 as stated fails: after \<^verbatim>\<open>detect\<close> the detector holds the height of the
  image, which it did not hold before.
\<close>

theorem detect_mutates_detector_counterexample:
  "img_height example_detector = None
   \<and> img_height (snd (detect (\<lambda>w h p. ()) example_detector example_image)) = Some 480
   \<and> snd (detect (\<lambda>w h p. ()) example_detector example_image) \<noteq> example_detector"
proof -
  have a: "img_height example_detector = None"
    by (simp add: example_detector_def)
  have b: "img_height (snd (detect (\<lambda>w h p. ()) example_detector example_image)) = Some 480"
    by (simp add: detect_eq example_image_def)
  from a b have "snd (detect (\<lambda>w h p. ()) example_detector example_image) \<noteq> example_detector"
    by auto
  with a b show ?thesis
    by blast
qed

text \<open>
  Claim C10. The boxes of the detections that \<^verbatim>\<open>detect\<close> returns are the corner
  forms of rescaled boxes, and the rescaling of a row divides its box fields by the
  model's input width and height and multiplies them by \<^verbatim>\<open>image_width\<close> and
  \<^verbatim>\<open>image_height\<close>, the size given at construction, in float32 with a cast to 32-bit
  integers. The height and width of the current image, which \<^verbatim>\<open>preprocess\<close> records,
  play no part in it: changing them does not change the rescaling, the detector that
  \<^verbatim>\<open>detect\<close> leaves rescales as the one it was given, and the detections for an image
  do not depend on the image's own size.
\<close>

theorem boxes_scaled_to_original_size:
  assumes "decode self (session self (cv (input_width self) (input_height self) (pixels im)))
             = Inr (rows, scores, class_ids)"
    and "fst (detect cv self im) = Inr ds"
  shows "map box ds
       = map xywh2xyxy
           (getitem (map (rescale self) rows)
              (NMSBoxes (map (rescale self) rows) scores (score_threshold self) (iou_threshold self)))
   \<and> rescale self (cx # cy # w # h # cls)
       = [astype_int32 (multiply_f32 (divide_f32 cx (input_width self)) (image_width self)),
          astype_int32 (multiply_f32 (divide_f32 cy (input_height self)) (image_height self)),
          astype_int32 (multiply_f32 (divide_f32 w (input_width self)) (image_width self)),
          astype_int32 (multiply_f32 (divide_f32 h (input_height self)) (image_height self))]
   \<and> rescale (self\<lparr>img_height := b, img_width := c\<rparr>) = rescale self
   \<and> rescale (snd (detect cv self im)) = rescale self
   \<and> fst (detect cv self (im\<lparr>shape0 := h', shape1 := w'\<rparr>)) = fst (detect cv self im)"
proof -
  let ?outputs = "session self (cv (input_width self) (input_height self) (pixels im))"
  from assms(2) have "postprocess self ?outputs = Inr ds"
    by (simp add: detect_eq)
  with assms(1) have "map box ds
       = map xywh2xyxy
           (getitem (map (rescale self) rows)
              (NMSBoxes (map (rescale self) rows) scores (score_threshold self) (iou_threshold self)))"
    by (rule postprocess_boxes)
  moreover have "rescale (self\<lparr>img_height := b, img_width := c\<rparr>) = rescale self"
    by (rule ext) (simp add: rescale_def)
  moreover have "rescale (snd (detect cv self im)) = rescale self"
    by (simp add: detect_eq rescale_frame)
  moreover have "fst (detect cv self (im\<lparr>shape0 := h', shape1 := w'\<rparr>)) = fst (detect cv self im)"
    by (simp add: detect_eq)
  moreover note rescale_row [of self cx cy w h cls]
  ultimately show ?thesis
    by blast
qed

text \<open>
  Claim C10 on the example: the image has 480 rows and 640 columns, the detector was
  constructed with \<^verbatim>\<open>original_size = (1280, 720)\<close>, and the centre (320, 320) of the
  640 by 640 input becomes (640, 360): the boxes are scaled to 1280 by 720.
\<close>

theorem boxes_scaled_to_original_size_witness:
  "shape0 example_image = 480
   \<and> shape1 example_image = 640
   \<and> image_width example_detector = 1280
   \<and> image_height example_detector = 720
   \<and> decode example_detector example_outputs = Inr (example_predictions, [9 / 10, 9 / 10], [1, 0])
   \<and> fst (detect (\<lambda>w h p. ()) example_detector example_image)
       = Inr [\<lparr>class_index = 1, confidence = 9 / 10, box = [576, 324, 704, 396], class_name = ''car''\<rparr>,
              \<lparr>class_index = 0, confidence = 9 / 10, box = [168, 94, 232, 130], class_name = ''person''\<rparr>]
   \<and> map (rescale example_detector) example_predictions = [[640, 360, 128, 72], [200, 112, 64, 36]]
   \<and> map xywh2xyxy
        (getitem (map (rescale example_detector) example_predictions)
           (NMSBoxes (map (rescale example_detector) example_predictions) [9 / 10, 9 / 10]
              (score_threshold example_detector) (iou_threshold example_detector)))
       = [[576, 324, 704, 396], [168, 94, 232, 130]]"
proof -
  have i: "shape0 example_image = 480" "shape1 example_image = 640"
    "image_width example_detector = 1280" "image_height example_detector = 720"
    by (simp_all add: example_image_def example_detector_def)
  have s: "session example_detector
      ((\<lambda>w h p. ()) (input_width example_detector) (input_height example_detector)
         (pixels example_image)) = example_outputs"
    by (simp add: example_detector_def)
  have d: "decode example_detector example_outputs
      = Inr (example_predictions, [9 / 10, 9 / 10], [1, 0])"
    by (simp add: decode_defs example_detector_def example_outputs_def example_predictions_def)
  have p: "postprocess example_detector example_outputs
       = Inr [\<lparr>class_index = 1, confidence = 9 / 10, box = [576, 324, 704, 396], class_name = ''car''\<rparr>,
              \<lparr>class_index = 0, confidence = 9 / 10, box = [168, 94, 232, 130], class_name = ''person''\<rparr>]"
    by (simp add: pipeline_defs example_detector_def example_outputs_def)
  have f: "fst (detect (\<lambda>w h p. ()) example_detector example_image)
       = Inr [\<lparr>class_index = 1, confidence = 9 / 10, box = [576, 324, 704, 396], class_name = ''car''\<rparr>,
              \<lparr>class_index = 0, confidence = 9 / 10, box = [168, 94, 232, 130], class_name = ''person''\<rparr>]"
    unfolding detect_eq fst_conv s by (rule p)
  have r: "map (rescale example_detector) example_predictions
      = [[640, 360, 128, 72], [200, 112, 64, 36]]"
    by (simp add: rescale_def rescale_entries example_detector_def example_predictions_def)
  note t = boxes_scaled_to_original_size
    [where self = example_detector and cv = "\<lambda>w h p. ()" and im = example_image,
      unfolded s, OF d f, THEN conjunct1]
  from t have "map xywh2xyxy
        (getitem (map (rescale example_detector) example_predictions)
           (NMSBoxes (map (rescale example_detector) example_predictions) [9 / 10, 9 / 10]
              (score_threshold example_detector) (iou_threshold example_detector)))
       = [[576, 324, 704, 396], [168, 94, 232, 130]]"
    by simp
  with i d f r show ?thesis
    by blast
qed

end
